theory Spec2Isabelle
  imports Complex_Main "HOL-Library.Word" "HOL-Library.Signed_Division"
begin

section \<open>Values shared by the repository and the service\<close>

text \<open>
  Go's \<^verbatim>\<open>int\<close> and \<^verbatim>\<open>int64\<close> are taken at 64 bits: addition, subtraction and
  multiplication wrap around, \<open>sint\<close> reads the two's-complement value.
\<close>

type_synonym int64 = "64 word"

text \<open>
  Modelled from the spec: package \<^verbatim>\<open>frappuccino/internal/models\<close> is not among the
  sources. Its sentinel errors (\<^verbatim>\<open>ErrDuplicateInventory\<close>, \<^verbatim>\<open>ErrNegativeQuantity\<close>,
  \<^verbatim>\<open>ErrInvalidEnumTypeInventory\<close>, \<^verbatim>\<open>ErrNoRecord\<close>, \<^verbatim>\<open>ErrMissingFields\<close>,
  \<^verbatim>\<open>ErrInvalidID\<close>) are the "fixed set of domain errors" of the spec: pairwise distinct
  values, distinct from every error of the libraries.

  The other constructors are the errors of the libraries the code inspects:
  \<^verbatim>\<open>sql.ErrNoRows\<close>; a \<^verbatim>\<open>*pq.Error\<close> with its \<^verbatim>\<open>Code\<close> and \<^verbatim>\<open>Message\<close>;
  the \<^verbatim>\<open>*strconv.NumError\<close> of \<^verbatim>\<open>strconv.Atoi\<close> (its input and whether it is
  \<^verbatim>\<open>ErrSyntax\<close> or \<^verbatim>\<open>ErrRange\<close>); any other error value, named by its text; and an
  error that wraps another one (\<^verbatim>\<open>Unwrap\<close> returns the second component).
\<close>

datatype error =
    ErrDuplicateInventory
  | ErrNegativeQuantity
  | ErrInvalidEnumTypeInventory
  | ErrNoRecord
  | ErrMissingFields
  | ErrInvalidID
  | sql_ErrNoRows
  | pq_Error (Code: string) (Message: string)
  | NumError_Syntax string
  | NumError_Range string
  | OtherError string
  | Wrapped string error

text \<open>
  \<^verbatim>\<open>errors.Is(err, target)\<close>: walks the chain of \<^verbatim>\<open>Unwrap\<close> and compares each error
  with the target. None of the errors above has an \<^verbatim>\<open>Is\<close> method of its own.
\<close>

fun errors_Is :: "error \<Rightarrow> error \<Rightarrow> bool" where
  "errors_Is (Wrapped msg inner) target =
     (Wrapped msg inner = target \<or> errors_Is inner target)"
| "errors_Is err target = (err = target)"

section \<open>The service layer: \<^verbatim>\<open>internal/service/menuService.go\<close>\<close>

subsection \<open>\<^verbatim>\<open>strconv.Atoi\<close>\<close>

text \<open>
  \<^verbatim>\<open>strconv.Atoi\<close> of the Go standard library, base 10 and the width of \<^verbatim>\<open>int\<close>: an
  optional sign \<^verbatim>\<open>+\<close> or \<^verbatim>\<open>-\<close>, then one or more decimal digits and nothing else;
  the value must lie in \<open>-2^63 .. 2^63 - 1\<close>.

  \<open>ParseUint_digits\<close> is the digit loop of \<^verbatim>\<open>strconv.ParseUint\<close>: it reads the
  bytes from the left, stops with a syntax error at the first byte that is not a digit,
  and with a range error as soon as the value read so far no longer fits 64 unsigned
  bits (\<open>1844674407370955162\<close> is the cutoff \<^verbatim>\<open>maxUint64/10 + 1\<close>). So a string whose
  digits overflow before a bad byte gives a range error, not a syntax error. The error
  carries the whole input.
\<close>

definition is_digit :: "char \<Rightarrow> bool" where
  "is_digit ch = (48 \<le> (of_char ch :: nat) \<and> (of_char ch :: nat) \<le> 57)"

fun ParseUint_digits :: "string \<Rightarrow> nat \<Rightarrow> string \<Rightarrow> error + nat" where
  "ParseUint_digits s0 n [] = Inr n"
| "ParseUint_digits s0 n (ch # s) =
     (if \<not> is_digit ch then Inl (NumError_Syntax s0)
      else if n \<ge> 1844674407370955162 then Inl (NumError_Range s0)
      else if n * 10 + ((of_char ch :: nat) - 48) > 18446744073709551615
        then Inl (NumError_Range s0)
      else ParseUint_digits s0 (n * 10 + ((of_char ch :: nat) - 48)) s)"

definition Atoi :: "string \<Rightarrow> error + int64" where
  "Atoi s0 =
     (let neg = (s0 \<noteq> [] \<and> hd s0 = CHR ''-'');
          s = (if s0 \<noteq> [] \<and> (hd s0 = CHR ''-'' \<or> hd s0 = CHR ''+'') then tl s0 else s0)
      in if s = [] then Inl (NumError_Syntax s0)
         else
           (case ParseUint_digits s0 0 s of
              Inl err \<Rightarrow> Inl err
            | Inr un \<Rightarrow>
                (if neg then (if int un > 2 ^ 63 then Inl (NumError_Range s0)
                              else Inr (word_of_int (- int un)))
                 else (if int un \<ge> 2 ^ 63 then Inl (NumError_Range s0)
                       else Inr (word_of_int (int un))))))"

subsection \<open>What the service is given\<close>

text \<open>
  \<^verbatim>\<open>models.MenuItem\<close> and its validator
  (\<^verbatim>\<open>models.NewMenuItemValidator(menu).Validate()\<close>) are not among the sources, so
  they are parameters: the menu item is a type parameter, its zero value
  \<^verbatim>\<open>models.MenuItem{}\<close> and the validator are given. \<open>Validate\<close> returns the
  field-name-to-message map, \<open>None\<close> being Go's \<^verbatim>\<open>nil\<close> map; the methods below
  treat a menu item as valid exactly when the result is \<open>None\<close>.
\<close>

record 'item models =
  MenuItem_zero :: 'item
  Validate :: "'item \<Rightarrow> (string \<rightharpoonup> string) option"

text \<open>
  The interface \<^verbatim>\<open>repository.MenuRepository\<close>: its implementation is not among the
  sources, so each method is a parameter. A method takes the stored state \<open>'s\<close> and
  returns its Go results together with the state it leaves; \<open>None\<close> is the \<^verbatim>\<open>nil\<close>
  error.
\<close>

record ('item, 's) MenuRepository =
  InsertMenuItem :: "'item \<Rightarrow> 's \<Rightarrow> error option \<times> 's"
  MenuRepository_RetrieveAll :: "'s \<Rightarrow> ('item list \<times> error option) \<times> 's"
  MenuRepository_RetrieveByID :: "int64 \<Rightarrow> 's \<Rightarrow> ('item \<times> error option) \<times> 's"
  UpdateMenuItem :: "int64 \<Rightarrow> 'item \<Rightarrow> 's \<Rightarrow> error option \<times> 's"
  MenuRepository_Delete :: "int64 \<Rightarrow> 's \<Rightarrow> error option \<times> 's"

record ('item, 's) menuService =
  menuRepo :: "('item, 's) MenuRepository"

subsection \<open>The methods of \<^verbatim>\<open>menuService\<close>\<close>

text \<open>
  Each method is the Go method with the stored state passed through. The methods of
  \<^verbatim>\<open>menuService\<close> that share a name with a method of the inventory repository carry
  the receiver's name as a prefix.
\<close>

definition InsertMenu ::
  "'item models \<Rightarrow> ('item, 's) menuService \<Rightarrow> 'item \<Rightarrow> 's
     \<Rightarrow> ((string \<rightharpoonup> string) option \<times> error option) \<times> 's" where
  "InsertMenu M s menu st =
     (case Validate M menu of
        Some errMap \<Rightarrow> ((Some errMap, Some ErrMissingFields), st)
      | None \<Rightarrow>
          (case InsertMenuItem (menuRepo s) menu st of
             (err, st') \<Rightarrow> ((None, err), st')))"

definition menuService_RetrieveAll ::
  "('item, 's) menuService \<Rightarrow> 's \<Rightarrow> ('item list \<times> error option) \<times> 's" where
  "menuService_RetrieveAll s st =
     (case MenuRepository_RetrieveAll (menuRepo s) st of
        ((menuItems, err), st') \<Rightarrow> ((menuItems, err), st'))"

definition menuService_RetrieveByID ::
  "'item models \<Rightarrow> ('item, 's) menuService \<Rightarrow> string \<Rightarrow> 's
     \<Rightarrow> ('item \<times> error option) \<times> 's" where
  "menuService_RetrieveByID M s id' st =
     (case Atoi id' of
        Inl err \<Rightarrow> ((MenuItem_zero M, Some ErrInvalidID), st)
      | Inr idInt \<Rightarrow>
          (case MenuRepository_RetrieveByID (menuRepo s) idInt st of
             ((menuItem, err), st') \<Rightarrow> ((menuItem, err), st')))"

definition menuService_Update ::
  "'item models \<Rightarrow> ('item, 's) menuService \<Rightarrow> string \<Rightarrow> 'item \<Rightarrow> 's
     \<Rightarrow> ((string \<rightharpoonup> string) option \<times> error option) \<times> 's" where
  "menuService_Update M s id' menuItem st =
     (case Atoi id' of
        Inl err \<Rightarrow> ((None, Some ErrInvalidID), st)
      | Inr idInt \<Rightarrow>
          (case Validate M menuItem of
             Some errMap \<Rightarrow> ((Some errMap, Some ErrMissingFields), st)
           | None \<Rightarrow>
               (case UpdateMenuItem (menuRepo s) idInt menuItem st of
                  (err, st') \<Rightarrow> ((None, err), st'))))"

definition menuService_Delete ::
  "('item, 's) menuService \<Rightarrow> string \<Rightarrow> 's \<Rightarrow> error option \<times> 's" where
  "menuService_Delete s id' st =
     (case Atoi id' of
        Inl err \<Rightarrow> (Some ErrInvalidID, st)
      | Inr idInt \<Rightarrow>
          (case MenuRepository_Delete (menuRepo s) idInt st of
             (err, st') \<Rightarrow> (err, st')))"

section \<open>The inventory repository: \<^verbatim>\<open>package postgre\<close>\<close>

subsection \<open>Records of package \<^verbatim>\<open>models\<close>\<close>

text \<open>
  Modelled from the spec: \<^verbatim>\<open>models.Inventory\<close> and \<^verbatim>\<open>models.InventoryLeftOverItem\<close>
  are not among the sources. The inventory item is "identifier, name, quantity, unit, list
  of category labels", with the types the parameters of \<^verbatim>\<open>Insert\<close> and \<^verbatim>\<open>Update\<close> give
  them; the leftover item has the two fields \<^verbatim>\<open>GetLeftOvers\<close> scans. A \<^verbatim>\<open>nil\<close> slice
  is the empty list.
\<close>

record Inventory =
  ID :: int64
  Name :: string
  Quantity :: int64
  Unit :: string
  Categories :: "string list"

record InventoryLeftOverItem =
  LeftOver_Name :: string
  LeftOver_Quantity :: int64

definition Inventory_zero :: Inventory where
  "Inventory_zero = \<lparr>ID = 0, Name = [], Quantity = 0, Unit = [], Categories = []\<rparr>"

subsection \<open>The database behind \<^verbatim>\<open>*sql.DB\<close>\<close>

text \<open>
  The arguments bound to the placeholders of a statement: an \<^verbatim>\<open>int\<close>, a \<^verbatim>\<open>string\<close>,
  or a string slice wrapped by \<^verbatim>\<open>pq.Array\<close>.
\<close>

datatype arg = ArgInt int64 | ArgString string | pq_Array "string list"

text \<open>
  \<^verbatim>\<open>sql.Result\<close>: the code calls only \<^verbatim>\<open>RowsAffected()\<close>, which returns a count and
  an error.
\<close>

datatype Result = Result (RowsAffected: "int64 \<times> error option")

text \<open>
  \<^verbatim>\<open>*sql.Rows\<close> as the loops use it: \<open>scans\<close> holds, for each row for which
  \<^verbatim>\<open>rows.Next()\<close> is true, what \<^verbatim>\<open>rows.Scan\<close> gives (an error, or the scanned
  record); \<open>Rows_Err\<close> is what \<^verbatim>\<open>rows.Err()\<close> reports once \<^verbatim>\<open>rows.Next()\<close> has
  returned false. The deferred \<^verbatim>\<open>rows.Close()\<close> returns nothing the code reads.
\<close>

datatype 'a Rows = Rows (scans: "(error + 'a) list") (Rows_Err: "error option")

text \<open>
  The database and its driver are outside the repository: what they answer to a statement
  is a parameter. \<open>'st\<close> is whatever the database stores; an answer may depend on it and
  change it. There is one answer function for each way the code reads a result:
  \<^verbatim>\<open>Exec\<close>; \<^verbatim>\<open>QueryRow(...).Scan(...)\<close> into the fields of an \<^verbatim>\<open>Inventory\<close> or into
  one \<^verbatim>\<open>int\<close>; \<^verbatim>\<open>Query\<close> with rows scanned into \<^verbatim>\<open>Inventory\<close> or
  \<^verbatim>\<open>InventoryLeftOverItem\<close>.
\<close>

record 'st database =
  answer_Exec :: "string \<Rightarrow> arg list \<Rightarrow> 'st \<Rightarrow> (error + Result) \<times> 'st"
  answer_QueryRow_Inventory :: "string \<Rightarrow> arg list \<Rightarrow> 'st \<Rightarrow> (error + Inventory) \<times> 'st"
  answer_QueryRow_int :: "string \<Rightarrow> arg list \<Rightarrow> 'st \<Rightarrow> (error + int64) \<times> 'st"
  answer_Query_Inventory :: "string \<Rightarrow> arg list \<Rightarrow> 'st \<Rightarrow> (error + Inventory Rows) \<times> 'st"
  answer_Query_LeftOver ::
    "string \<Rightarrow> arg list \<Rightarrow> 'st \<Rightarrow> (error + InventoryLeftOverItem Rows) \<times> 'st"

text \<open>
  The connection: the stored state, and the statements sent so far with their arguments,
  in order.
\<close>

record 'st conn =
  store :: 'st
  executed :: "(string \<times> arg list) list"

definition send ::
  "(string \<Rightarrow> arg list \<Rightarrow> 'st \<Rightarrow> 'r \<times> 'st) \<Rightarrow> string \<Rightarrow> arg list \<Rightarrow> 'st conn
     \<Rightarrow> 'r \<times> 'st conn" where
  "send answer query args c =
     (case answer query args (store c) of
        (r, st') \<Rightarrow> (r, \<lparr>store = st', executed = executed c @ [(query, args)]\<rparr>))"

definition Exec ::
  "'st database \<Rightarrow> string \<Rightarrow> arg list \<Rightarrow> 'st conn \<Rightarrow> (error + Result) \<times> 'st conn" where
  "Exec db = send (answer_Exec db)"

definition QueryRow_Scan_Inventory ::
  "'st database \<Rightarrow> string \<Rightarrow> arg list \<Rightarrow> 'st conn \<Rightarrow> (error + Inventory) \<times> 'st conn" where
  "QueryRow_Scan_Inventory db = send (answer_QueryRow_Inventory db)"

definition QueryRow_Scan_int ::
  "'st database \<Rightarrow> string \<Rightarrow> arg list \<Rightarrow> 'st conn \<Rightarrow> (error + int64) \<times> 'st conn" where
  "QueryRow_Scan_int db = send (answer_QueryRow_int db)"

definition Query_Inventory ::
  "'st database \<Rightarrow> string \<Rightarrow> arg list \<Rightarrow> 'st conn
     \<Rightarrow> (error + Inventory Rows) \<times> 'st conn" where
  "Query_Inventory db = send (answer_Query_Inventory db)"

definition Query_LeftOver ::
  "'st database \<Rightarrow> string \<Rightarrow> arg list \<Rightarrow> 'st conn
     \<Rightarrow> (error + InventoryLeftOverItem Rows) \<times> 'st conn" where
  "Query_LeftOver db = send (answer_Query_LeftOver db)"

text \<open>
  The loop \<^verbatim>\<open>for rows.Next() { err = rows.Scan(...); if err != nil { return ... };
  xs = append(xs, x) }\<close>: stops at the first scan error, otherwise collects the rows in
  order.
\<close>

fun scan_loop :: "(error + 'a) list \<Rightarrow> 'a list \<Rightarrow> error + 'a list" where
  "scan_loop [] acc = Inr acc"
| "scan_loop (Inl err # rest) acc = Inl err"
| "scan_loop (Inr row # rest) acc = scan_loop rest (acc @ [row])"

subsection \<open>Integer division\<close>

text \<open>
  Go's \<^verbatim>\<open>/\<close> on \<^verbatim>\<open>int\<close>: a run-time panic when the divisor is zero (\<open>None\<close>);
  otherwise the quotient truncated towards zero, wrapped to 64 bits (the one overflow is
  the most negative value divided by \<open>-1\<close>, which gives the dividend back).
\<close>

definition go_div :: "int64 \<Rightarrow> int64 \<Rightarrow> int64 option" where
  "go_div x y = (if y = 0 then None else Some (word_of_int (sint x sdiv sint y)))"

text \<open>
  A call either returns its results or ends in a run-time panic: Go's "integer divide by
  zero", or "invalid memory address or nil pointer dereference".
\<close>

datatype panic = DivideByZero | NilDereference

datatype 'a outcome = Returns 'a | Panics panic

subsection \<open>The methods of \<^verbatim>\<open>inventoryRepositoryPostgres\<close>\<close>

text \<open>
  The receiver holds the database handle \<^verbatim>\<open>pq\<close> and the logger. The constructor
  \<^verbatim>\<open>NewInventoryRepositoryWithPostgres\<close> stores whatever \<^verbatim>\<open>*slog.Logger\<close> it is
  given, \<^verbatim>\<open>nil\<close> included (\<open>None\<close>). What a logger writes is no result of a method,
  but \<^verbatim>\<open>m.logger.Error(...)\<close> on a \<^verbatim>\<open>nil\<close> logger ends the call in a nil-pointer
  panic. The handle \<^verbatim>\<open>pq\<close> is an open database.
\<close>

datatype Logger = Logger

record 'st inventoryRepositoryPostgres =
  pq :: "'st database"
  logger :: "Logger option"

definition NewInventoryRepositoryWithPostgres ::
  "'st database \<Rightarrow> Logger option \<Rightarrow> 'st inventoryRepositoryPostgres" where
  "NewInventoryRepositoryWithPostgres db lg = \<lparr>pq = db, logger = lg\<rparr>"

definition logger_Error :: "Logger option \<Rightarrow> unit outcome" where
  "logger_Error lg = (case lg of None \<Rightarrow> Panics NilDereference | Some l \<Rightarrow> Returns ())"

text \<open>
  Each method takes the connection and returns its Go results with the connection it
  leaves.
\<close>

definition Insert ::
  "'st inventoryRepositoryPostgres \<Rightarrow> string \<Rightarrow> string \<Rightarrow> int64 \<Rightarrow> string list \<Rightarrow> 'st conn
     \<Rightarrow> error option \<times> 'st conn" where
  "Insert m name unit quantity categories c =
     (case Exec (pq m)
             ''INSERT INTO inventory (name, quantity, unit, categories) VALUES ($1, $2, $3, $4)''
             [ArgString name, ArgInt quantity, ArgString unit, pq_Array categories] c of
        (Inl err, c') \<Rightarrow>
          (case err of
             pq_Error code msg \<Rightarrow>
               (if code = ''23505'' then (Some ErrDuplicateInventory, c')
                else if code = ''23514'' then (Some ErrNegativeQuantity, c')
                else if code = ''22P02'' then (Some ErrInvalidEnumTypeInventory, c')
                else (Some err, c'))
           | _ \<Rightarrow> (Some err, c'))
      | (Inr result, c') \<Rightarrow> (None, c'))"

definition RetrieveByID ::
  "'st inventoryRepositoryPostgres \<Rightarrow> int64 \<Rightarrow> 'st conn
     \<Rightarrow> (Inventory \<times> error option) \<times> 'st conn" where
  "RetrieveByID m id' c =
     (case QueryRow_Scan_Inventory (pq m) ''SELECT * FROM inventory WHERE id = $1''
             [ArgInt id'] c of
        (Inl err, c') \<Rightarrow>
          (if errors_Is err sql_ErrNoRows then ((Inventory_zero, Some ErrNoRecord), c')
           else ((Inventory_zero, Some err), c'))
      | (Inr inventory, c') \<Rightarrow> ((inventory, None), c'))"

definition RetrieveAll ::
  "'st inventoryRepositoryPostgres \<Rightarrow> 'st conn
     \<Rightarrow> (Inventory list \<times> error option) outcome \<times> 'st conn" where
  "RetrieveAll m c =
     (case Query_Inventory (pq m) ''SELECT * FROM inventory'' [] c of
        (Inl err, c') \<Rightarrow>
          (case logger_Error (logger m) of
             Panics p \<Rightarrow> (Panics p, c')
           | Returns u \<Rightarrow> (Returns ([], Some err), c'))
      | (Inr rows, c') \<Rightarrow>
          (case scan_loop (scans rows) [] of
             Inl err \<Rightarrow> (Returns ([], Some err), c')
           | Inr InventoryAll \<Rightarrow>
               (case Rows_Err rows of
                  Some err \<Rightarrow> (Returns ([], Some err), c')
                | None \<Rightarrow> (Returns (InventoryAll, None), c'))))"

definition Update ::
  "'st inventoryRepositoryPostgres \<Rightarrow> int64 \<Rightarrow> string \<Rightarrow> string \<Rightarrow> int64 \<Rightarrow> string list
     \<Rightarrow> 'st conn \<Rightarrow> error option \<times> 'st conn" where
  "Update m id' name unit quantity categories c =
     (case Exec (pq m)
             ''UPDATE inventory SET name=$1, unit=$2, quantity=$3, categories=$4 WHERE id=$5''
             [ArgString name, ArgString unit, ArgInt quantity, pq_Array categories, ArgInt id']
             c of
        (Inl err, c') \<Rightarrow>
          (if errors_Is err sql_ErrNoRows then (Some ErrNoRecord, c')
           else
             (case err of
                pq_Error code msg \<Rightarrow>
                  (if code = ''23505'' then (Some ErrDuplicateInventory, c')
                   else if code = ''23514'' then (Some ErrNegativeQuantity, c')
                   else if code = ''22P02'' then (Some ErrInvalidEnumTypeInventory, c')
                   else (Some err, c'))
              | _ \<Rightarrow> (Some err, c')))
      | (Inr result, c') \<Rightarrow>
          (case RowsAffected result of
             (rowsAffected, err) \<Rightarrow>
               (if rowsAffected = 0 then (Some ErrNoRecord, c') else (err, c'))))"

definition Delete ::
  "'st inventoryRepositoryPostgres \<Rightarrow> int64 \<Rightarrow> 'st conn \<Rightarrow> error option \<times> 'st conn" where
  "Delete m id' c =
     (case Exec (pq m) ''DELETE FROM inventory WHERE id=$1'' [ArgInt id'] c of
        (Inl err, c') \<Rightarrow> (Some err, c')
      | (Inr result, c') \<Rightarrow>
          (case RowsAffected result of
             (rowsAffected, err) \<Rightarrow>
               (if rowsAffected = 0 then (Some ErrNoRecord, c') else (err, c'))))"

definition GetLeftOvers ::
  "'st inventoryRepositoryPostgres \<Rightarrow> string \<Rightarrow> int64 \<Rightarrow> int64 \<Rightarrow> 'st conn
     \<Rightarrow> (InventoryLeftOverItem list \<times> int64 \<times> error option) outcome \<times> 'st conn" where
  "GetLeftOvers m sortColumn page pageSize c =
     (let offset = (page - 1) * pageSize in
      case QueryRow_Scan_int (pq m) ''SELECT COUNT(*) FROM inventory'' [] c of
        (Inl err, c1) \<Rightarrow> (Returns ([], 0, Some err), c1)
      | (Inr totalItems, c1) \<Rightarrow>
          (case go_div (totalItems + pageSize - 1) pageSize of
             None \<Rightarrow> (Panics DivideByZero, c1)
           | Some totalPages \<Rightarrow>
               (let query = ''SELECT name, quantity FROM inventory ORDER BY '' @ sortColumn
                              @ '' DESC LIMIT $1 OFFSET $2'' in
                case Query_LeftOver (pq m) query [ArgInt pageSize, ArgInt offset] c1 of
                  (Inl err, c2) \<Rightarrow>
                    (case logger_Error (logger m) of
                       Panics p \<Rightarrow> (Panics p, c2)
                     | Returns u \<Rightarrow> (Returns ([], 0, Some err), c2))
                | (Inr rows, c2) \<Rightarrow>
                    (case scan_loop (scans rows) [] of
                       Inl err \<Rightarrow> (Returns ([], 0, Some err), c2)
                     | Inr leftovers \<Rightarrow> (Returns (leftovers, totalPages, None), c2)))))"

section \<open>Concrete instances\<close>

text \<open>
  Small instances of the parameters, on which the theorems below are evaluated: a
  validator that requires a name, a menu repository that counts the calls it receives,
  and databases that give one fixed answer.
\<close>

definition name_required :: "string models" where
  "name_required =
     \<lparr>MenuItem_zero = [],
      Validate = (\<lambda>menu. if menu = [] then Some [''name'' \<mapsto> ''name is required''] else None)\<rparr>"

definition counting_repo :: "(string, nat) MenuRepository" where
  "counting_repo =
     \<lparr>InsertMenuItem = (\<lambda>menu n. (None, Suc n)),
      MenuRepository_RetrieveAll = (\<lambda>n. (([], None), Suc n)),
      MenuRepository_RetrieveByID = (\<lambda>idInt n. (([], None), Suc n)),
      UpdateMenuItem = (\<lambda>idInt menu n. (None, Suc n)),
      MenuRepository_Delete = (\<lambda>idInt n. (None, Suc n))\<rparr>"

definition counting_service :: "(string, nat) menuService" where
  "counting_service = \<lparr>menuRepo = counting_repo\<rparr>"

definition silent_db :: "nat database" where
  "silent_db =
     \<lparr>answer_Exec = (\<lambda>query args n. (Inl (OtherError ''connection refused''), Suc n)),
      answer_QueryRow_Inventory =
        (\<lambda>query args n. (Inl (OtherError ''connection refused''), Suc n)),
      answer_QueryRow_int = (\<lambda>query args n. (Inl (OtherError ''connection refused''), Suc n)),
      answer_Query_Inventory =
        (\<lambda>query args n. (Inl (OtherError ''connection refused''), Suc n)),
      answer_Query_LeftOver =
        (\<lambda>query args n. (Inl (OtherError ''connection refused''), Suc n))\<rparr>"

definition exec_answers :: "error + Result \<Rightarrow> nat inventoryRepositoryPostgres" where
  "exec_answers r =
     \<lparr>pq = silent_db\<lparr>answer_Exec := (\<lambda>query args n. (r, Suc n))\<rparr>,
      logger = Some Logger\<rparr>"

definition no_rows_repo :: "nat inventoryRepositoryPostgres" where
  "no_rows_repo =
     \<lparr>pq = silent_db\<lparr>answer_QueryRow_Inventory := (\<lambda>query args n. (Inl sql_ErrNoRows, n))\<rparr>,
      logger = Some Logger\<rparr>"

definition fresh :: "nat conn" where
  "fresh = \<lparr>store = 0, executed = []\<rparr>"

definition leftover_repo ::
  "error + int64 \<Rightarrow> error + InventoryLeftOverItem Rows \<Rightarrow> nat inventoryRepositoryPostgres" where
  "leftover_repo counted rows =
     \<lparr>pq = silent_db\<lparr>answer_QueryRow_int := (\<lambda>query args n. (counted, Suc n)),
                      answer_Query_LeftOver := (\<lambda>query args n. (rows, Suc n))\<rparr>,
      logger = Some Logger\<rparr>"

definition inventory_rows_repo :: "error + Inventory Rows \<Rightarrow> nat inventoryRepositoryPostgres" where
  "inventory_rows_repo rows =
     \<lparr>pq = silent_db\<lparr>answer_Query_Inventory := (\<lambda>query args n. (rows, Suc n))\<rparr>,
      logger = Some Logger\<rparr>"

definition milk :: InventoryLeftOverItem where
  "milk = \<lparr>LeftOver_Name = ''milk'', LeftOver_Quantity = 3\<rparr>"

definition milk_item :: Inventory where
  "milk_item = \<lparr>ID = 1, Name = ''milk'', Quantity = 3, Unit = ''ml'', Categories = []\<rparr>"

section \<open>Properties of the service layer\<close>

lemma Atoi_abc: "Atoi ''abc'' = Inl (NumError_Syntax ''abc'')"
  by (simp add: Atoi_def is_digit_def)

lemma Atoi_7: "Atoi ''7'' = Inr 7"
  by (simp add: Atoi_def is_digit_def)

text \<open>
  C5, as stated, fails for \<^verbatim>\<open>Update\<close>: the identifier is parsed before the menu item
  is validated, so a menu item that fails validation, sent with an identifier that is not
  an integer, gets the \<^verbatim>\<open>nil\<close> map and \<^verbatim>\<open>ErrInvalidID\<close>, not a map and
  \<^verbatim>\<open>ErrMissingFields\<close>.
\<close>

theorem validation_failure_Update_bad_id:
  "Validate name_required [] = Some [''name'' \<mapsto> ''name is required''] \<and>
   fst (menuService_Update name_required counting_service ''abc'' [] 0)
     = (None, Some ErrInvalidID)"
  by (simp add: menuService_Update_def name_required_def Atoi_abc)

text \<open>
  C5, amended: for every menu item whose required-field validation fails,
  \<^verbatim>\<open>InsertMenu\<close> returns the validator's non-nil field-name-to-message map together
  with \<^verbatim>\<open>ErrMissingFields\<close>, and so does \<^verbatim>\<open>Update\<close> when its identifier parses as an
  integer; for every menu item that passes validation, the map returned by either method
  is \<^verbatim>\<open>nil\<close>.
\<close>

theorem validation_failure_returns_map:
  "(Validate M menu = Some errMap \<longrightarrow>
      fst (InsertMenu M s menu st) = (Some errMap, Some ErrMissingFields)) \<and>
   (Validate M menu = Some errMap \<and> Atoi id' = Inr idInt \<longrightarrow>
      fst (menuService_Update M s id' menu st) = (Some errMap, Some ErrMissingFields)) \<and>
   (Validate M menu = None \<longrightarrow>
      fst (fst (InsertMenu M s menu st)) = None \<and>
      fst (fst (menuService_Update M s id' menu st)) = None)"
  by (auto simp: InsertMenu_def menuService_Update_def split: sum.splits prod.splits)

theorem validation_failure_returns_map_witness:
  "Validate name_required [] = Some [''name'' \<mapsto> ''name is required''] \<and>
   Atoi ''7'' = Inr 7 \<and>
   fst (InsertMenu name_required counting_service [] 0)
     = (Some [''name'' \<mapsto> ''name is required''], Some ErrMissingFields) \<and>
   fst (menuService_Update name_required counting_service ''7'' [] 0)
     = (Some [''name'' \<mapsto> ''name is required''], Some ErrMissingFields) \<and>
   Validate name_required ''latte'' = None \<and>
   fst (fst (InsertMenu name_required counting_service ''latte'' 0)) = None \<and>
   fst (fst (menuService_Update name_required counting_service ''7'' ''latte'' 0)) = None"
proof -
  have bad: "Validate name_required [] = Some [''name'' \<mapsto> ''name is required'']"
    by (simp add: name_required_def)
  have good: "Validate name_required ''latte'' = None"
    by (simp add: name_required_def)
  note failing = validation_failure_returns_map
    [of name_required "[]" "[''name'' \<mapsto> ''name is required'']" counting_service 0 "''7''" 7]
  note passing = validation_failure_returns_map
    [of name_required "''latte''" _ counting_service 0 "''7''" 7]
  from bad good Atoi_7 failing passing show ?thesis by simp
qed

text \<open>
  C6: for every identifier string that \<^verbatim>\<open>strconv.Atoi\<close> rejects, \<^verbatim>\<open>RetrieveByID\<close>
  returns the zero-value menu item with \<^verbatim>\<open>ErrInvalidID\<close>, \<^verbatim>\<open>Update\<close> returns the
  \<^verbatim>\<open>nil\<close> map with \<^verbatim>\<open>ErrInvalidID\<close>, and \<^verbatim>\<open>Delete\<close> returns \<^verbatim>\<open>ErrInvalidID\<close>.
\<close>

theorem invalid_id_ErrInvalidID:
  assumes "Atoi id' = Inl err"
  shows "fst (menuService_RetrieveByID M s id' st) = (MenuItem_zero M, Some ErrInvalidID) \<and>
         fst (menuService_Update M s id' menuItem st) = (None, Some ErrInvalidID) \<and>
         fst (menuService_Delete s id' st) = Some ErrInvalidID"
  using assms
  by (simp add: menuService_RetrieveByID_def menuService_Update_def menuService_Delete_def)

theorem invalid_id_ErrInvalidID_witness:
  "Atoi ''abc'' = Inl (NumError_Syntax ''abc'') \<and>
   fst (menuService_RetrieveByID name_required counting_service ''abc'' 0)
     = ([], Some ErrInvalidID) \<and>
   fst (menuService_Update name_required counting_service ''abc'' ''latte'' 0)
     = (None, Some ErrInvalidID) \<and>
   fst (menuService_Delete counting_service ''abc'' 0) = Some ErrInvalidID"
  using Atoi_abc
    invalid_id_ErrInvalidID [OF Atoi_abc, of name_required counting_service 0 "''latte''"]
  by (simp add: name_required_def)

text \<open>
  C9: when identifier parsing or field validation fails, \<^verbatim>\<open>InsertMenu\<close>, \<^verbatim>\<open>Update\<close>
  and \<^verbatim>\<open>Delete\<close> return without calling the repository: the call gives the same
  results whatever the repository \<open>s'\<close> behind the service is, and the stored state it
  leaves is the state it was given. (The repository is arbitrary, so this covers one whose
  every method changes the state.)
\<close>

theorem rejected_call_leaves_repository_alone:
  "(Validate M menu \<noteq> None \<longrightarrow>
      InsertMenu M s menu st = InsertMenu M s' menu st \<and>
      snd (InsertMenu M s menu st) = st) \<and>
   (isl (Atoi id') \<or> Validate M menu \<noteq> None \<longrightarrow>
      menuService_Update M s id' menu st = menuService_Update M s' id' menu st \<and>
      snd (menuService_Update M s id' menu st) = st) \<and>
   (isl (Atoi id') \<longrightarrow>
      menuService_Delete s id' st = menuService_Delete s' id' st \<and>
      snd (menuService_Delete s id' st) = st)"
  by (auto simp: InsertMenu_def menuService_Update_def menuService_Delete_def
           split: sum.splits option.splits)

theorem rejected_call_leaves_repository_alone_witness:
  "Validate name_required [] \<noteq> None \<and> isl (Atoi ''abc'') \<and>
   snd (InsertMenu name_required counting_service [] 5) = 5 \<and>
   snd (menuService_Update name_required counting_service ''abc'' [] 5) = 5 \<and>
   snd (menuService_Update name_required counting_service ''7'' [] 5) = 5 \<and>
   snd (menuService_Delete counting_service ''abc'' 5) = 5 \<and>
   snd (menuService_Delete counting_service ''7'' 5) = 6"
proof -
  have bad: "Validate name_required [] \<noteq> None"
    by (simp add: name_required_def)
  have nan: "isl (Atoi ''abc'')"
    by (simp add: Atoi_abc)
  note r1 = rejected_call_leaves_repository_alone
    [of name_required "[]" counting_service 5 counting_service "''abc''"]
  note r2 = rejected_call_leaves_repository_alone
    [of name_required "[]" counting_service 5 counting_service "''7''"]
  have ran: "snd (menuService_Delete counting_service ''7'' 5) = 6"
    by (simp add: menuService_Delete_def Atoi_7 counting_service_def counting_repo_def)
  from bad nan r1 r2 ran show ?thesis by simp
qed

section \<open>Properties of the inventory repository\<close>

text \<open>
  C2: when the \<^verbatim>\<open>Exec\<close> of \<^verbatim>\<open>Insert\<close> fails with a \<^verbatim>\<open>*pq.Error\<close>, the caller gets
  \<^verbatim>\<open>ErrDuplicateInventory\<close> for code 23505, \<^verbatim>\<open>ErrNegativeQuantity\<close> for code 23514
  and \<^verbatim>\<open>ErrInvalidEnumTypeInventory\<close> for code 22P02; likewise for \<^verbatim>\<open>Update\<close>.
\<close>

theorem driver_code_mapping:
  "(fst (answer_Exec (pq m)
           ''INSERT INTO inventory (name, quantity, unit, categories) VALUES ($1, $2, $3, $4)''
           [ArgString name, ArgInt quantity, ArgString unit, pq_Array categories] (store c))
      = Inl (pq_Error code msg) \<longrightarrow>
      (code = ''23505'' \<longrightarrow>
         fst (Insert m name unit quantity categories c) = Some ErrDuplicateInventory) \<and>
      (code = ''23514'' \<longrightarrow>
         fst (Insert m name unit quantity categories c) = Some ErrNegativeQuantity) \<and>
      (code = ''22P02'' \<longrightarrow>
         fst (Insert m name unit quantity categories c) = Some ErrInvalidEnumTypeInventory)) \<and>
   (fst (answer_Exec (pq m)
           ''UPDATE inventory SET name=$1, unit=$2, quantity=$3, categories=$4 WHERE id=$5''
           [ArgString name, ArgString unit, ArgInt quantity, pq_Array categories, ArgInt id']
           (store c))
      = Inl (pq_Error code msg) \<longrightarrow>
      (code = ''23505'' \<longrightarrow>
         fst (Update m id' name unit quantity categories c) = Some ErrDuplicateInventory) \<and>
      (code = ''23514'' \<longrightarrow>
         fst (Update m id' name unit quantity categories c) = Some ErrNegativeQuantity) \<and>
      (code = ''22P02'' \<longrightarrow>
         fst (Update m id' name unit quantity categories c)
           = Some ErrInvalidEnumTypeInventory))"
  by (auto simp: Insert_def Update_def Exec_def send_def split: prod.splits)

theorem driver_code_mapping_witness:
  "fst (Insert (exec_answers (Inl (pq_Error ''23505'' ''duplicate key''))) ''milk'' ''ml'' 5 [] fresh)
     = Some ErrDuplicateInventory \<and>
   fst (Insert (exec_answers (Inl (pq_Error ''23514'' ''check''))) ''milk'' ''ml'' (- 5) [] fresh)
     = Some ErrNegativeQuantity \<and>
   fst (Insert (exec_answers (Inl (pq_Error ''22P02'' ''enum''))) ''milk'' ''cups'' 5 [] fresh)
     = Some ErrInvalidEnumTypeInventory \<and>
   fst (Update (exec_answers (Inl (pq_Error ''23505'' ''duplicate key''))) 1 ''milk'' ''ml'' 5 [] fresh)
     = Some ErrDuplicateInventory \<and>
   fst (Update (exec_answers (Inl (pq_Error ''23514'' ''check''))) 1 ''milk'' ''ml'' (- 5) [] fresh)
     = Some ErrNegativeQuantity \<and>
   fst (Update (exec_answers (Inl (pq_Error ''22P02'' ''enum''))) 1 ''milk'' ''cups'' 5 [] fresh)
     = Some ErrInvalidEnumTypeInventory"
  using
    driver_code_mapping [of "exec_answers (Inl (pq_Error ''23505'' ''duplicate key''))"
      "''milk''" 5 "''ml''" "[]" fresh "''23505''" "''duplicate key''" 1]
    driver_code_mapping [of "exec_answers (Inl (pq_Error ''23514'' ''check''))"
      "''milk''" "- 5" "''ml''" "[]" fresh "''23514''" "''check''" 1]
    driver_code_mapping [of "exec_answers (Inl (pq_Error ''22P02'' ''enum''))"
      "''milk''" 5 "''cups''" "[]" fresh "''22P02''" "''enum''" 1]
  by (simp add: exec_answers_def)

text \<open>
  C3: when no inventory record has the identifier, that is when
  \<^verbatim>\<open>QueryRow(...).Scan(...)\<close> reports \<^verbatim>\<open>sql.ErrNoRows\<close>, \<^verbatim>\<open>RetrieveByID\<close> returns
  the zero-value \<^verbatim>\<open>Inventory\<close> together with \<^verbatim>\<open>ErrNoRecord\<close>.
\<close>

theorem RetrieveByID_no_rows:
  assumes "fst (answer_QueryRow_Inventory (pq m) ''SELECT * FROM inventory WHERE id = $1''
                  [ArgInt id'] (store c)) = Inl err"
      and "errors_Is err sql_ErrNoRows"
  shows "fst (RetrieveByID m id' c) = (Inventory_zero, Some ErrNoRecord)"
  using assms
  by (auto simp: RetrieveByID_def QueryRow_Scan_Inventory_def send_def split: prod.splits)

theorem RetrieveByID_no_rows_witness:
  "errors_Is sql_ErrNoRows sql_ErrNoRows \<and>
   fst (RetrieveByID no_rows_repo 42 fresh)
     = (\<lparr>ID = 0, Name = [], Quantity = 0, Unit = [], Categories = []\<rparr>, Some ErrNoRecord)"
proof -
  have answer: "fst (answer_QueryRow_Inventory (pq no_rows_repo)
                  ''SELECT * FROM inventory WHERE id = $1'' [ArgInt 42] (store fresh))
                = Inl sql_ErrNoRows"
    by (simp add: no_rows_repo_def)
  have is_no_rows: "errors_Is sql_ErrNoRows sql_ErrNoRows"
    by simp
  from RetrieveByID_no_rows [OF answer is_no_rows] is_no_rows show ?thesis
    by (simp add: Inventory_zero_def)
qed

text \<open>
  C4: when the \<^verbatim>\<open>UPDATE\<close> statement succeeds and affects zero rows, \<^verbatim>\<open>Update\<close>
  returns \<^verbatim>\<open>ErrNoRecord\<close>.
\<close>

theorem Update_zero_rows:
  assumes "fst (answer_Exec (pq m)
                  ''UPDATE inventory SET name=$1, unit=$2, quantity=$3, categories=$4 WHERE id=$5''
                  [ArgString name, ArgString unit, ArgInt quantity, pq_Array categories,
                   ArgInt id'] (store c)) = Inr result"
      and "fst (RowsAffected result) = 0"
  shows "fst (Update m id' name unit quantity categories c) = Some ErrNoRecord"
  using assms
  by (auto simp: Update_def Exec_def send_def split: prod.splits)

theorem Update_zero_rows_witness:
  "fst (RowsAffected (Result (0, None))) = 0 \<and>
   fst (Update (exec_answers (Inr (Result (0, None)))) 42 ''milk'' ''ml'' 5 [] fresh)
     = Some ErrNoRecord"
proof -
  have answer: "fst (answer_Exec (pq (exec_answers (Inr (Result (0, None)))))
                  ''UPDATE inventory SET name=$1, unit=$2, quantity=$3, categories=$4 WHERE id=$5''
                  [ArgString ''milk'', ArgString ''ml'', ArgInt 5, pq_Array [], ArgInt 42]
                  (store fresh)) = Inr (Result (0, None))"
    by (simp add: exec_answers_def)
  have zero: "fst (RowsAffected (Result (0, None))) = 0"
    by simp
  from Update_zero_rows [OF answer zero] zero show ?thesis
    by simp
qed

text \<open>
  C10: when the \<^verbatim>\<open>DELETE\<close> statement succeeds and affects zero rows, \<^verbatim>\<open>Delete\<close>
  returns \<^verbatim>\<open>ErrNoRecord\<close>.
\<close>

theorem Delete_zero_rows:
  assumes "fst (answer_Exec (pq m) ''DELETE FROM inventory WHERE id=$1'' [ArgInt id']
                  (store c)) = Inr result"
      and "fst (RowsAffected result) = 0"
  shows "fst (Delete m id' c) = Some ErrNoRecord"
  using assms
  by (auto simp: Delete_def Exec_def send_def split: prod.splits)

theorem Delete_zero_rows_witness:
  "fst (RowsAffected (Result (0, None))) = 0 \<and>
   fst (Delete (exec_answers (Inr (Result (0, None)))) 42 fresh) = Some ErrNoRecord"
proof -
  have answer: "fst (answer_Exec (pq (exec_answers (Inr (Result (0, None)))))
                  ''DELETE FROM inventory WHERE id=$1'' [ArgInt 42] (store fresh))
                = Inr (Result (0, None))"
    by (simp add: exec_answers_def)
  have zero: "fst (RowsAffected (Result (0, None))) = 0"
    by simp
  from Delete_zero_rows [OF answer zero] zero show ?thesis
    by simp
qed

subsection \<open>Pagination\<close>

text \<open>
  The quotient \<open>(t + p - 1) div p\<close> is the ceiling of \<open>t / p\<close> for a positive \<open>p\<close>;
  on 64-bit values this needs \<open>t + p - 1\<close> to stay within range.
\<close>

lemma ceil_div:
  fixes t p :: int
  assumes "0 < p"
  shows "(t + p - 1) div p = - ((- t) div p)"
proof (cases "t mod p = 0")
  case True
  then have "p dvd t" by auto
  then have "(t + (p - 1)) div p = t div p + (p - 1) div p"
    by (rule div_plus_div_distrib_dvd_left)
  moreover have "(p - 1) div p = 0"
    using assms by (simp add: div_pos_pos_trivial)
  moreover have "(- t) div p = - (t div p)"
    using assms True by (simp add: zdiv_zminus1_eq_if)
  ultimately show ?thesis by (simp add: algebra_simps)
next
  case False
  have r: "0 \<le> t mod p" "t mod p < p"
    using assms by simp_all
  with False have r1: "0 \<le> t mod p - 1" by linarith
  have "t + p - 1 = p * (t div p + 1) + (t mod p - 1)"
    by (simp add: algebra_simps)
  then have "(t + p - 1) div p = t div p + 1"
    using r1 r(2) by (intro int_div_pos_eq [where r = "t mod p - 1"]) simp_all
  moreover have "(- t) div p = - (t div p) - 1"
    using assms False by (simp add: zdiv_zminus1_eq_if)
  ultimately show ?thesis by simp
qed

lemma sint_sum:
  fixes t p :: int64
  assumes "0 < sint p" "0 \<le> sint t" "sint t + sint p - 1 < 2 ^ 63"
  shows "sint (t + p - 1) = sint t + sint p - 1"
proof -
  have "t + p - 1 = word_of_int (sint t + sint p - 1)"
    by simp
  then have "sint (t + p - 1) = signed_take_bit 63 (sint t + sint p - 1)"
    by (simp only: sint_sbintrunc') simp
  also have "\<dots> = sint t + sint p - 1"
    using assms by (intro signed_take_bit_int_eq_self) simp_all
  finally show ?thesis .
qed

lemma sint_back:
  assumes "0 \<le> q" "q < 2 ^ 63"
  shows "sint (word_of_int q :: int64) = q"
proof -
  have "sint (word_of_int q :: int64) = signed_take_bit 63 q"
    by (simp add: sint_sbintrunc')
  also have "\<dots> = q"
    using assms by (intro signed_take_bit_int_eq_self) simp_all
  finally show ?thesis .
qed

lemma go_div_ceiling:
  fixes t p :: int64
  assumes p: "0 < sint p" and t: "0 \<le> sint t" and fits: "sint t + sint p - 1 < 2 ^ 63"
  shows "\<exists>q. go_div (t + p - 1) p = Some q \<and>
             sint q = \<lceil>real_of_int (sint t) / real_of_int (sint p)\<rceil>"
proof -
  let ?k = "sint t + sint p - 1"
  from p have nz: "p \<noteq> 0" by auto
  have k0: "0 \<le> ?k" using p t by simp
  have sd: "?k sdiv sint p = ?k div sint p"
    using k0 p by (simp add: signed_divide_int_def sgn_if)
  have q0: "0 \<le> ?k div sint p"
    using k0 p by (simp add: pos_imp_zdiv_nonneg_iff)
  have "?k div sint p \<le> ?k"
  proof (cases "?k = 0")
    case True
    then show ?thesis by simp
  next
    case False
    with k0 have "0 < ?k" by linarith
    then show ?thesis by (rule int_div_le_self)
  qed
  with fits have q1: "?k div sint p < 2 ^ 63" by linarith
  have "go_div (t + p - 1) p = Some (word_of_int (?k div sint p))"
    using nz by (simp add: go_div_def sint_sum [OF p t fits] sd)
  moreover have "sint (word_of_int (?k div sint p) :: int64) = ?k div sint p"
    by (rule sint_back [OF q0 q1])
  moreover have "\<lceil>real_of_int (sint t) / real_of_int (sint p)\<rceil> = ?k div sint p"
    unfolding ceil_div [OF p, of "sint t"] by (rule ceiling_divide_eq_div)
  ultimately show ?thesis by simp
qed


lemmas leftover_eval =
  GetLeftOvers_def leftover_repo_def QueryRow_Scan_int_def Query_LeftOver_def send_def
  fresh_def go_div_def signed_divide_int_def logger_Error_def

text \<open>
  C1, as stated, fails. With ten rows in the table: a page size of 0 ends the call in a
  panic after the \<^verbatim>\<open>COUNT\<close> statement, so no offset is passed and no page count
  returned; a page size of \<open>2^63 - 1\<close> makes \<open>totalItems + pageSize - 1\<close> wrap around and
  returns 0 pages where the ceiling is 1; when the second query fails the returned page
  count is 0 where the ceiling of \<open>10 / 5\<close> is 2; and for a page size of \<open>-3\<close>, which
  PostgreSQL rejects as a negative \<^verbatim>\<open>LIMIT\<close>, the returned page count is 0 and the
  quotient computed before the query is \<open>-2\<close>, where the ceiling of \<open>10 / -3\<close> is \<open>-3\<close>.
\<close>

theorem GetLeftOvers_not_ceiling:
  "fst (GetLeftOvers (leftover_repo (Inr 10) (Inr (Rows [Inr milk] None))) ''quantity'' 1 0 fresh)
     = Panics DivideByZero \<and>
   executed (snd (GetLeftOvers (leftover_repo (Inr 10) (Inr (Rows [Inr milk] None)))
                    ''quantity'' 1 0 fresh))
     = [(''SELECT COUNT(*) FROM inventory'', [])] \<and>
   fst (GetLeftOvers (leftover_repo (Inr 10) (Inr (Rows [Inr milk] None))) ''quantity'' 1
          9223372036854775807 fresh)
     = Returns ([milk], 0, None) \<and>
   \<lceil>(10 :: real) / 9223372036854775807\<rceil> = 1 \<and>
   fst (GetLeftOvers (leftover_repo (Inr 10) (Inl (OtherError ''connection reset by peer'')))
          ''quantity'' 1 5 fresh)
     = Returns ([], 0, Some (OtherError ''connection reset by peer'')) \<and>
   \<lceil>(10 :: real) / 5\<rceil> = 2 \<and>
   fst (GetLeftOvers
          (leftover_repo (Inr 10) (Inl (pq_Error ''2201W'' ''LIMIT must not be negative'')))
          ''quantity'' 1 (- 3) fresh)
     = Returns ([], 0, Some (pq_Error ''2201W'' ''LIMIT must not be negative'')) \<and>
   go_div (10 + (- 3) - 1) (- 3) = Some (- 2) \<and>
   \<lceil>(10 :: real) / (- 3)\<rceil> = - 3"
  by (simp add: leftover_eval)

text \<open>
  C1, amended: for every call \<^verbatim>\<open>GetLeftOvers(sortColumn, page, pageSize)\<close> with
  \<open>pageSize \<noteq> 0\<close> whose \<^verbatim>\<open>COUNT\<close> statement reports \<open>totalItems\<close> rows, the statements
  sent are the \<^verbatim>\<open>COUNT\<close> and then the sorted query with \<^verbatim>\<open>LIMIT pageSize\<close> and
  \<^verbatim>\<open>OFFSET (page - 1) * pageSize\<close> (64-bit wrap-around arithmetic). When the call
  returns without an error, the total-page count it returns is
  \<^verbatim>\<open>(totalItems + pageSize - 1) / pageSize\<close> in Go's truncating 64-bit division, and
  this is the ceiling of \<open>totalItems / pageSize\<close> whenever \<open>pageSize > 0\<close>,
  \<open>totalItems \<ge> 0\<close> and \<open>totalItems + pageSize - 1\<close> does not exceed the largest
  \<^verbatim>\<open>int\<close>.
\<close>

theorem GetLeftOvers_offset_and_totalPages:
  assumes "fst (answer_QueryRow_int (pq m) ''SELECT COUNT(*) FROM inventory'' [] (store c))
             = Inr totalItems"
      and "pageSize \<noteq> 0"
  shows "executed (snd (GetLeftOvers m sortColumn page pageSize c))
           = executed c @
             [(''SELECT COUNT(*) FROM inventory'', []),
              (''SELECT name, quantity FROM inventory ORDER BY '' @ sortColumn
                 @ '' DESC LIMIT $1 OFFSET $2'',
               [ArgInt pageSize, ArgInt ((page - 1) * pageSize)])] \<and>
         (fst (GetLeftOvers m sortColumn page pageSize c) = Returns (leftovers, totalPages, None)
            \<longrightarrow> go_div (totalItems + pageSize - 1) pageSize = Some totalPages \<and>
                (0 < sint pageSize \<and> 0 \<le> sint totalItems \<and>
                 sint totalItems + sint pageSize - 1 < 2 ^ 63 \<longrightarrow>
                 sint totalPages
                   = \<lceil>real_of_int (sint totalItems) / real_of_int (sint pageSize)\<rceil>))"
proof -
  obtain st1 where count:
    "answer_QueryRow_int (pq m) ''SELECT COUNT(*) FROM inventory'' [] (store c)
       = (Inr totalItems, st1)"
    using assms(1) by (cases "answer_QueryRow_int (pq m) ''SELECT COUNT(*) FROM inventory'' []
                                (store c)") simp
  obtain q where q: "go_div (totalItems + pageSize - 1) pageSize = Some q"
    using assms(2) by (simp add: go_div_def)
  have sent: "executed (snd (GetLeftOvers m sortColumn page pageSize c))
           = executed c @
             [(''SELECT COUNT(*) FROM inventory'', []),
              (''SELECT name, quantity FROM inventory ORDER BY '' @ sortColumn
                 @ '' DESC LIMIT $1 OFFSET $2'',
               [ArgInt pageSize, ArgInt ((page - 1) * pageSize)])]"
    using count q
    by (simp add: GetLeftOvers_def Let_def QueryRow_Scan_int_def Query_LeftOver_def send_def
                  logger_Error_def
             split: prod.splits sum.splits option.splits)
  have pages: "totalPages = q"
    if "fst (GetLeftOvers m sortColumn page pageSize c) = Returns (leftovers, totalPages, None)"
    using that count q
    by (simp add: GetLeftOvers_def Let_def QueryRow_Scan_int_def Query_LeftOver_def send_def
                  logger_Error_def
             split: prod.splits sum.splits option.splits)
  have ceil: "sint q = \<lceil>real_of_int (sint totalItems) / real_of_int (sint pageSize)\<rceil>"
    if "0 < sint pageSize" "0 \<le> sint totalItems" "sint totalItems + sint pageSize - 1 < 2 ^ 63"
    using go_div_ceiling [OF that] q by simp
  from sent pages ceil q show ?thesis by blast
qed

theorem GetLeftOvers_offset_and_totalPages_witness:
  "executed (snd (GetLeftOvers (leftover_repo (Inr 10) (Inr (Rows [Inr milk] None)))
                    ''quantity'' 3 4 fresh))
     = [(''SELECT COUNT(*) FROM inventory'', []),
        (''SELECT name, quantity FROM inventory ORDER BY quantity DESC LIMIT $1 OFFSET $2'',
         [ArgInt 4, ArgInt 8])] \<and>
   fst (GetLeftOvers (leftover_repo (Inr 10) (Inr (Rows [Inr milk] None))) ''quantity'' 3 4 fresh)
     = Returns ([milk], 3, None) \<and>
   go_div (10 + 4 - 1) 4 = Some 3 \<and>
   sint (3 :: int64) = \<lceil>real_of_int (sint (10 :: int64)) / real_of_int (sint (4 :: int64))\<rceil>"
proof -
  let ?m = "leftover_repo (Inr 10) (Inr (Rows [Inr milk] None))"
  have counted: "fst (answer_QueryRow_int (pq ?m) ''SELECT COUNT(*) FROM inventory'' []
                   (store fresh)) = Inr 10"
    by (simp add: leftover_repo_def)
  have nonzero: "(4 :: int64) \<noteq> 0"
    by simp
  have returned: "fst (GetLeftOvers ?m ''quantity'' 3 4 fresh) = Returns ([milk], 3, None)"
    by (simp add: leftover_eval)
  have range: "0 < sint (4 :: int64) \<and> 0 \<le> sint (10 :: int64) \<and>
               sint (10 :: int64) + sint (4 :: int64) - 1 < 2 ^ 63"
    by simp
  from GetLeftOvers_offset_and_totalPages
         [OF counted nonzero, of "''quantity''" 3 "[milk]" 3] returned range
  show ?thesis
    by (simp add: fresh_def)
qed

text \<open>
  C8, as stated, fails: a call with \<open>pageSize = 0\<close> does not reach the division when the
  \<^verbatim>\<open>COUNT\<close> statement before it fails. It returns that error after the one statement.
\<close>

theorem GetLeftOvers_zero_pageSize_count_fails:
  "fst (GetLeftOvers
          (leftover_repo (Inl (OtherError ''connection refused'')) (Inr (Rows [Inr milk] None)))
          ''quantity'' 1 0 fresh)
     = Returns ([], 0, Some (OtherError ''connection refused'')) \<and>
   executed (snd (GetLeftOvers
          (leftover_repo (Inl (OtherError ''connection refused'')) (Inr (Rows [Inr milk] None)))
          ''quantity'' 1 0 fresh))
     = [(''SELECT COUNT(*) FROM inventory'', [])]"
  by (simp add: leftover_eval)

text \<open>
  C8, amended: \<^verbatim>\<open>GetLeftOvers\<close> divides by \<open>pageSize\<close> with no guard when computing
  the total-page count. For every call with \<open>pageSize \<noteq> 0\<close> the division has a value and
  the call does not end in the division-by-zero panic. A call with \<open>pageSize = 0\<close> ends
  in the division-by-zero panic exactly when the \<^verbatim>\<open>COUNT\<close> statement before the
  division succeeds; when that statement fails, the call returns its error without
  dividing.
\<close>

theorem GetLeftOvers_divide_by_zero_panic:
  "(pageSize \<noteq> 0 \<longrightarrow>
      go_div (totalItems + pageSize - 1) pageSize \<noteq> None \<and>
      fst (GetLeftOvers m sortColumn page pageSize c) \<noteq> Panics DivideByZero) \<and>
   (pageSize = 0 \<longrightarrow>
      (fst (GetLeftOvers m sortColumn page pageSize c) = Panics DivideByZero) =
      (\<not> isl (fst (answer_QueryRow_int (pq m) ''SELECT COUNT(*) FROM inventory'' []
                      (store c)))) \<and>
      (fst (answer_QueryRow_int (pq m) ''SELECT COUNT(*) FROM inventory'' [] (store c))
         = Inl err \<longrightarrow>
       fst (GetLeftOvers m sortColumn page pageSize c) = Returns ([], 0, Some err)))"
  by (auto simp: GetLeftOvers_def Let_def QueryRow_Scan_int_def Query_LeftOver_def send_def
                 go_div_def logger_Error_def
           split: prod.splits sum.splits option.splits)

theorem GetLeftOvers_divide_by_zero_panic_witness:
  "go_div (10 + 5 - 1) 5 \<noteq> None \<and>
   fst (GetLeftOvers (leftover_repo (Inr 10) (Inr (Rows [Inr milk] None))) ''quantity'' 1 5 fresh)
     \<noteq> Panics DivideByZero \<and>
   \<not> isl (fst (answer_QueryRow_int (pq (leftover_repo (Inr 10) (Inr (Rows [Inr milk] None))))
                 ''SELECT COUNT(*) FROM inventory'' [] (store fresh))) \<and>
   fst (GetLeftOvers (leftover_repo (Inr 10) (Inr (Rows [Inr milk] None))) ''quantity'' 1 0 fresh)
     = Panics DivideByZero \<and>
   fst (GetLeftOvers
          (leftover_repo (Inl (OtherError ''connection refused'')) (Inr (Rows [Inr milk] None)))
          ''quantity'' 1 0 fresh)
     = Returns ([], 0, Some (OtherError ''connection refused''))"
proof -
  let ?m = "leftover_repo (Inr 10) (Inr (Rows [Inr milk] None))"
  let ?down = "leftover_repo (Inl (OtherError ''connection refused''))
                 (Inr (Rows [Inr milk] None))"
  have counted: "\<not> isl (fst (answer_QueryRow_int (pq ?m) ''SELECT COUNT(*) FROM inventory'' []
                              (store fresh)))"
    by (simp add: leftover_repo_def)
  have refused: "fst (answer_QueryRow_int (pq ?down) ''SELECT COUNT(*) FROM inventory'' []
                        (store fresh)) = Inl (OtherError ''connection refused'')"
    by (simp add: leftover_repo_def)
  have five: "(5 :: int64) \<noteq> 0"
    by simp
  from GetLeftOvers_divide_by_zero_panic [of 5 10 ?m "''quantity''" 1 fresh]
       GetLeftOvers_divide_by_zero_panic [of 0 10 ?m "''quantity''" 1 fresh]
       GetLeftOvers_divide_by_zero_panic
         [of 0 10 ?down "''quantity''" 1 fresh "OtherError ''connection refused''"]
       counted refused five
  show ?thesis
    by simp
qed

text \<open>
  The other panic of \<^verbatim>\<open>GetLeftOvers\<close> and \<^verbatim>\<open>RetrieveAll\<close>: a repository built with
  a \<^verbatim>\<open>nil\<close> logger panics when the query fails and the failure is to be logged.
\<close>

lemma nil_logger_panics:
  "fst (GetLeftOvers
          ((leftover_repo (Inr 10) (Inl (OtherError ''connection reset by peer'')))
             \<lparr>logger := None\<rparr>)
          ''quantity'' 1 5 fresh)
     = Panics NilDereference \<and>
   fst (RetrieveAll
          ((inventory_rows_repo (Inl (OtherError ''connection reset by peer'')))
             \<lparr>logger := None\<rparr>)
          fresh)
     = Panics NilDereference"
  by (simp add: leftover_eval RetrieveAll_def inventory_rows_repo_def Query_Inventory_def)

subsection \<open>Errors passed through\<close>

text \<open>
  C7 does not hold of the code. \<^verbatim>\<open>GetLeftOvers\<close> never calls \<^verbatim>\<open>rows.Err()\<close>: when
  the iteration over the result stops on a database error, the rows read so far are
  returned with a \<^verbatim>\<open>nil\<close> error. \<^verbatim>\<open>RetrieveAll\<close> checks \<^verbatim>\<open>rows.Err()\<close> after
  the same loop and returns the error.
\<close>

theorem GetLeftOvers_drops_iteration_error:
  "fst (GetLeftOvers
          (leftover_repo (Inr 10)
             (Inr (Rows [Inr milk] (Some (OtherError ''connection reset by peer'')))))
          ''quantity'' 1 5 fresh)
     = Returns ([milk], 2, None) \<and>
   fst (RetrieveAll
          (inventory_rows_repo
             (Inr (Rows [Inr milk_item] (Some (OtherError ''connection reset by peer'')))))
          fresh)
     = Returns ([], Some (OtherError ''connection reset by peer''))"
  by (simp add: leftover_eval RetrieveAll_def inventory_rows_repo_def Query_Inventory_def)

text \<open>
  \<^verbatim>\<open>Update\<close> and \<^verbatim>\<open>Delete\<close> test the count of \<^verbatim>\<open>RowsAffected()\<close> before its
  error: an error that comes with a count of 0 is replaced by \<^verbatim>\<open>ErrNoRecord\<close>, one
  that comes with another count is returned. (The interface \<^verbatim>\<open>sql.Result\<close> allows such
  an error; the result of \<^verbatim>\<open>lib/pq\<close> does not produce one.)
\<close>

lemma RowsAffected_error_masked:
  "fst (Delete (exec_answers (Inr (Result (0, Some (OtherError ''not supported''))))) 42 fresh)
     = Some ErrNoRecord \<and>
   fst (Update (exec_answers (Inr (Result (0, Some (OtherError ''not supported''))))) 42
          ''milk'' ''ml'' 5 [] fresh)
     = Some ErrNoRecord \<and>
   fst (Delete (exec_answers (Inr (Result (1, Some (OtherError ''not supported''))))) 42 fresh)
     = Some (OtherError ''not supported'')"
  by (simp add: Delete_def Update_def Exec_def send_def exec_answers_def fresh_def)

text \<open>
  Everywhere else an error is returned as the database gave it: from \<^verbatim>\<open>Exec\<close> in
  \<^verbatim>\<open>Insert\<close>, \<^verbatim>\<open>Update\<close> and \<^verbatim>\<open>Delete\<close>, from the scan in \<^verbatim>\<open>RetrieveByID\<close>,
  from the query (once it is logged), a row scan or \<^verbatim>\<open>rows.Err()\<close> in
  \<^verbatim>\<open>RetrieveAll\<close>, and from the \<^verbatim>\<open>COUNT\<close> statement in \<^verbatim>\<open>GetLeftOvers\<close>.
\<close>

lemma Insert_other_error:
  assumes "fst (answer_Exec (pq m)
                  ''INSERT INTO inventory (name, quantity, unit, categories) VALUES ($1, $2, $3, $4)''
                  [ArgString name, ArgInt quantity, ArgString unit, pq_Array categories]
                  (store c)) = Inl err"
      and "\<not> (is_pq_Error err \<and> Code err \<in> {''23505'', ''23514'', ''22P02''})"
  shows "fst (Insert m name unit quantity categories c) = Some err"
  using assms
  by (auto simp: Insert_def Exec_def send_def split: prod.splits error.splits)

lemma RetrieveByID_other_error:
  assumes "fst (answer_QueryRow_Inventory (pq m) ''SELECT * FROM inventory WHERE id = $1''
                  [ArgInt id'] (store c)) = Inl err"
      and "\<not> errors_Is err sql_ErrNoRows"
  shows "fst (RetrieveByID m id' c) = (Inventory_zero, Some err)"
  using assms
  by (auto simp: RetrieveByID_def QueryRow_Scan_Inventory_def send_def split: prod.splits)

lemma RetrieveAll_error:
  "fst (RetrieveAll m c) =
     (case fst (answer_Query_Inventory (pq m) ''SELECT * FROM inventory'' [] (store c)) of
        Inl err \<Rightarrow>
          (case logger m of
             None \<Rightarrow> Panics NilDereference
           | Some l \<Rightarrow> Returns ([], Some err))
      | Inr rows \<Rightarrow>
          (case scan_loop (scans rows) [] of
             Inl err \<Rightarrow> Returns ([], Some err)
           | Inr InventoryAll \<Rightarrow>
               (case Rows_Err rows of
                  Some err \<Rightarrow> Returns ([], Some err)
                | None \<Rightarrow> Returns (InventoryAll, None))))"
  by (simp add: RetrieveAll_def Query_Inventory_def send_def logger_Error_def
           split: prod.splits sum.splits option.splits)

lemma Update_other_error:
  assumes "fst (answer_Exec (pq m)
                  ''UPDATE inventory SET name=$1, unit=$2, quantity=$3, categories=$4 WHERE id=$5''
                  [ArgString name, ArgString unit, ArgInt quantity, pq_Array categories,
                   ArgInt id'] (store c)) = Inl err"
      and "\<not> errors_Is err sql_ErrNoRows"
      and "\<not> (is_pq_Error err \<and> Code err \<in> {''23505'', ''23514'', ''22P02''})"
  shows "fst (Update m id' name unit quantity categories c) = Some err"
  using assms
  by (auto simp: Update_def Exec_def send_def split: prod.splits error.splits)

lemma Delete_Exec_error:
  assumes "fst (answer_Exec (pq m) ''DELETE FROM inventory WHERE id=$1'' [ArgInt id']
                  (store c)) = Inl err"
  shows "fst (Delete m id' c) = Some err"
  using assms
  by (auto simp: Delete_def Exec_def send_def split: prod.splits)

lemma GetLeftOvers_count_error:
  assumes "fst (answer_QueryRow_int (pq m) ''SELECT COUNT(*) FROM inventory'' [] (store c))
             = Inl err"
  shows "fst (GetLeftOvers m sortColumn page pageSize c) = Returns ([], 0, Some err)"
  using assms
  by (auto simp: GetLeftOvers_def Let_def QueryRow_Scan_int_def send_def split: prod.splits)

end
